theory Spec2Isabelle
  imports Complex_Main "HOL-Library.Sublist"
begin

section \<open>Data model\<close>

text \<open>
  Percentages are Python floats; they are modelled as reals, and every comparison of
  the source is a comparison of a real with an integer constant. The rendering of a
  number inside an f-string (\<^verbatim>\<open>f"{cpu}%"\<close>) belongs to the Python runtime, so every
  function that builds a message takes it as the parameter \<open>fmt\<close>.
\<close>

type_synonym num_format = "real \<Rightarrow> string"

text \<open>A formatter that prints every number as the same text; it stands in for the runtime in examples.\<close>

definition fmt_fixed :: "string \<Rightarrow> num_format" where
  "fmt_fixed s x = s"

text \<open>
  The dict returned by \<^verbatim>\<open>get_system_metrics()\<close> (module \<^verbatim>\<open>utils.metrics\<close>, whose result is an
  input of every function here), restricted to the keys the code reads:
  \<^verbatim>\<open>metrics['cpu']\<close>, \<^verbatim>\<open>metrics['memory']['percent']\<close>, \<^verbatim>\<open>metrics['disk']['percent']\<close>.
  \<open>None\<close> is an absent key; for the two nested dicts the inner option is the
  \<^verbatim>\<open>'percent'\<close> key.
\<close>

record metrics =
  metrics_cpu :: "real option"
  metrics_memory :: "real option option"
  metrics_disk :: "real option option"

text \<open>
  JSON values, as \<^verbatim>\<open>json.loads\<close> returns them and as the dict literals of the service build
  them. Python keeps integers and floats apart (\<^verbatim>\<open>str(1)\<close> is "1", \<^verbatim>\<open>str(1.0)\<close> is "1.0").
\<close>

datatype json =
    JNull
  | JBool bool
  | JInt int
  | JFloat real
  | JStr string
  | JArr "json list"
  | JObj "(string \<times> json) list"

text \<open>\<^verbatim>\<open>d.get(key, default)\<close> on a dict.\<close>

definition dict_get :: "(string \<times> json) list \<Rightarrow> string \<Rightarrow> json \<Rightarrow> json" where
  "dict_get d k dflt = (case map_of d k of None \<Rightarrow> dflt | Some v \<Rightarrow> v)"

text \<open>
  Exceptions of one sampling tick, with the text that \<^verbatim>\<open>str(e)\<close> gives. \<open>OtherError\<close> is
  whatever \<^verbatim>\<open>get_system_metrics()\<close> raises, with its message.
\<close>

datatype py_exception =
    KeyError string
  | OtherError string

fun str_exception :: "py_exception \<Rightarrow> string" where
  "str_exception (KeyError k) = [CHR 0x27] @ k @ [CHR 0x27]"
| "str_exception (OtherError msg) = msg"

text \<open>\<^verbatim>\<open>str.upper()\<close> on ASCII text (the levels are ASCII literals).\<close>

definition upper_char :: "char \<Rightarrow> char" where
  "upper_char c =
     (case map_of (zip ''abcdefghijklmnopqrstuvwxyz'' ''ABCDEFGHIJKLMNOPQRSTUVWXYZ'') c of
        None \<Rightarrow> c
      | Some u \<Rightarrow> u)"

definition upper :: "string \<Rightarrow> string" where
  "upper s = map upper_char s"

text \<open>
  \<^verbatim>\<open>str(n)\<close> of a natural number (for \<^verbatim>\<open>len(recommendations)\<close> in the summary) and of an
  integer.
\<close>

fun str_nat :: "nat \<Rightarrow> string" where
  "str_nat n =
     (if n < 10 then [''0123456789'' ! n]
      else str_nat (n div 10) @ [''0123456789'' ! (n mod 10)])"

declare str_nat.simps [simp del]

definition str_int :: "int \<Rightarrow> string" where
  "str_int i = (if i < 0 then ''-'' @ str_nat (nat (- i)) else str_nat (nat i))"

section \<open>Severity classification (app.py, background_monitor, lines 99-116)\<close>

text \<open>
  The if/elif chain of the sampling loop; each branch calls \<^verbatim>\<open>add_log(level, message, metrics)\<close>.
  \<open>classify\<close> returns the pair of level and message of the branch taken; \<open>now_s\<close> is
  \<^verbatim>\<open>int(time.time())\<close>.
\<close>

definition classify :: "num_format \<Rightarrow> int \<Rightarrow> real \<Rightarrow> real \<Rightarrow> real \<Rightarrow> string \<times> string" where
  "classify fmt now_s cpu mem disk =
     (if cpu > 90 then (''critical'', ''CPU Critical: '' @ fmt cpu @ ''%'')
      else if cpu > 70 then (''warning'', ''High CPU Load: '' @ fmt cpu @ ''%'')
      else if mem > 90 then (''critical'', ''Memory Critical: '' @ fmt mem @ ''%'')
      else if mem > 80 then (''warning'', ''High Memory Usage: '' @ fmt mem @ ''%'')
      else if disk > 90 then (''critical'', ''Disk Critical: '' @ fmt disk @ ''%'')
      else if disk > 80 then (''warning'', ''High Disk Usage: '' @ fmt disk @ ''%'')
      else if now_s mod 30 = 0 then
        (''info'', ''System Status: CPU '' @ fmt cpu @ ''%, RAM '' @ fmt mem @ ''%, Disk '' @ fmt disk @ ''%'')
      else
        (''info'', ''System Stable: CPU '' @ fmt cpu @ ''%, RAM '' @ fmt mem @ ''%''))"

section \<open>The enrichment service (service.py, class AIService)\<close>

text \<open>
  \<open>client\<close> is \<open>True\<close> when \<^verbatim>\<open>self.client\<close> is an OpenAI client and \<open>False\<close> when it is
  \<^verbatim>\<open>None\<close> (no API key, or the package is missing). \<open>alert_history\<close> starts empty.
\<close>

record alert_record =
  record_timestamp :: string
  record_metric :: string
  record_value :: real
  record_severity :: json

record AIService =
  client :: bool
  alert_history :: "alert_record list"

definition new_AIService :: "bool \<Rightarrow> AIService" where
  "new_AIService has_client = \<lparr>client = has_client, alert_history = []\<rparr>"

text \<open>
  What the external service does on one request: the request raises (an API error or a
  timeout), or it returns content that \<^verbatim>\<open>json.loads\<close> rejects, or content that parses.
\<close>

datatype service_outcome =
    ServiceError
  | Timeout
  | Unparseable
  | Parsed json

datatype service_exception =
    APIError
  | APITimeoutError
  | JSONDecodeError
  | AttributeError

text \<open>
  \<^verbatim>\<open>self.client.chat.completions.create(...)\<close> followed by
  \<^verbatim>\<open>json.loads(response.choices[0].message.content)\<close>. The prompt that is sent (with the
  threshold table and the context built from the last three history entries) only reaches
  the external service, whose answer is the parameter.
\<close>

fun call_service :: "service_outcome \<Rightarrow> service_exception + json" where
  "call_service ServiceError = Inl APIError"
| "call_service Timeout = Inl APITimeoutError"
| "call_service Unparseable = Inl JSONDecodeError"
| "call_service (Parsed result) = Inr result"

definition default_response :: "num_format \<Rightarrow> string \<Rightarrow> real \<Rightarrow> json" where
  "default_response fmt metric val = JObj
     [(''explanation'', JStr (metric @ '' is at '' @ fmt val @ ''%'')),
      (''causes'', JArr [JStr ''System load'', JStr ''Application demand'', JStr ''Background processes'']),
      (''actions'', JArr [JStr ''Check running processes'', JStr ''Monitor trends'', JStr ''Consider scaling'']),
      (''severity'', JStr (if val > 80 then ''high'' else if val > 60 then ''medium'' else ''low'')),
      (''related_metrics'', JArr [JStr ''memory_usage'', JStr ''disk_io'', JStr ''network_traffic''])]"

text \<open>
  The body of the \<^verbatim>\<open>try\<close> of \<open>enhance_alert\<close> (lines 111-145). \<^verbatim>\<open>result.get\<close> exists only
  on a dict: any other parsed value raises AttributeError before the history is touched.
  \<open>now\<close> is \<^verbatim>\<open>datetime.now().isoformat()\<close>.
\<close>

definition make_alert_record :: "string \<Rightarrow> string \<Rightarrow> real \<Rightarrow> (string \<times> json) list \<Rightarrow> alert_record" where
  "make_alert_record now metric val result =
     \<lparr>record_timestamp = now, record_metric = metric, record_value = val,
      record_severity = dict_get result ''severity'' (JStr ''medium'')\<rparr>"

definition enhance_alert_try ::
  "AIService \<Rightarrow> string \<Rightarrow> real \<Rightarrow> string \<Rightarrow> service_outcome \<Rightarrow> service_exception + (json \<times> AIService)" where
  "enhance_alert_try self metric val now outcome =
     (case call_service outcome of
        Inl e \<Rightarrow> Inl e
      | Inr result \<Rightarrow>
          (case result of
             JObj d \<Rightarrow>
               (let history = alert_history self @ [make_alert_record now metric val d];
                    history = (if length history > 10 then tl history else history)
                in Inr (result, self\<lparr>alert_history := history\<rparr>))
           | _ \<Rightarrow> Inl AttributeError))"

text \<open>
  \<open>enhance_alert\<close> returns the response and the service object as the call leaves it.
  \<open>alert_type\<close>, \<open>server\<close> and \<open>threshold\<close> only enter the prompt.
\<close>

definition enhance_alert ::
  "num_format \<Rightarrow> AIService \<Rightarrow> string \<Rightarrow> string \<Rightarrow> real \<Rightarrow> (string \<times> string) list option \<Rightarrow> real option
     \<Rightarrow> string \<Rightarrow> service_outcome \<Rightarrow> json \<times> AIService" where
  "enhance_alert fmt self alert_type metric val server threshold now outcome =
     (if \<not> client self then (default_response fmt metric val, self)
      else (case enhance_alert_try self metric val now outcome of
              Inl e \<Rightarrow> (default_response fmt metric val, self)
            | Inr r \<Rightarrow> r))"






text \<open>\<^verbatim>\<open>metrics.get('cpu', 0)\<close> and \<^verbatim>\<open>metrics.get(k, {}).get('percent', 0)\<close>.\<close>

definition get_cpu :: "metrics \<Rightarrow> real" where
  "get_cpu m = (case metrics_cpu m of None \<Rightarrow> 0 | Some c \<Rightarrow> c)"

definition get_percent :: "real option option \<Rightarrow> real" where
  "get_percent sub = (case sub of None \<Rightarrow> 0 | Some None \<Rightarrow> 0 | Some (Some p) \<Rightarrow> p)"





subsection \<open>Recommendations (generate_recommendations, lines 207-245)\<close>

record recommendation =
  rec_type :: string
  rec_priority :: string
  rec_action :: string
  rec_details :: string

record recommendations_result =
  res_timestamp :: string
  res_recommendations :: "recommendation list"
  res_summary :: string

definition generate_recommendations :: "num_format \<Rightarrow> string \<Rightarrow> metrics \<Rightarrow> recommendations_result" where
  "generate_recommendations fmt now m =
     (let recommendations = [];
          cpu = get_cpu m;
          recommendations =
            (if cpu > 70 then recommendations @
               [\<lparr>rec_type = ''cpu'', rec_priority = ''high'', rec_action = ''Optimize CPU usage'',
                 rec_details = ''Current CPU is '' @ fmt cpu @
                   ''%. Consider: 1. Identify CPU-intensive processes 2. Optimize application code 3. Add CPU limits''\<rparr>]
             else recommendations);
          mem = get_percent (metrics_memory m);
          recommendations =
            (if mem > 80 then recommendations @
               [\<lparr>rec_type = ''memory'', rec_priority = ''high'', rec_action = ''Address memory usage'',
                 rec_details = ''Memory at '' @ fmt mem @
                   ''%. Consider: 1. Check for memory leaks 2. Increase swap space 3. Add more RAM''\<rparr>]
             else recommendations);
          disk = get_percent (metrics_disk m);
          recommendations =
            (if disk > 85 then recommendations @
               [\<lparr>rec_type = ''disk'', rec_priority = ''critical'', rec_action = ''Free up disk space'',
                 rec_details = ''Disk at '' @ fmt disk @
                   ''%. Consider: 1. Clean up temporary files 2. Archive old logs 3. Increase storage''\<rparr>]
             else recommendations)
      in \<lparr>res_timestamp = now, res_recommendations = recommendations,
          res_summary = ''Found '' @ str_nat (length recommendations) @ '' optimization opportunities''\<rparr>)"

section \<open>The logs and the sampling loop (app.py)\<close>

record ai_entry =
  entry_timestamp :: string
  entry_level :: string
  original_message :: string
  ai_explanation :: json
  likely_causes :: json
  recommended_actions :: json
  entry_severity :: json

text \<open>
  The module-level state. \<open>ai_service\<close> is \<open>None\<close> when \<^verbatim>\<open>AIService()\<close> raised at start-up.
  The Prometheus counters are functions from the label text to the count.
\<close>

record app_state =
  logs_store :: "string list"
  ai_alerts_store :: "ai_entry list"
  ai_service :: "AIService option"
  prom_cpu :: real
  prom_mem :: real
  prom_disk :: real
  prom_logs :: "string \<Rightarrow> nat"
  prom_ai_alerts :: "string \<Rightarrow> nat"

definition initial_state :: "AIService option \<Rightarrow> app_state" where
  "initial_state svc =
     \<lparr>logs_store = [], ai_alerts_store = [], ai_service = svc,
      prom_cpu = 0, prom_mem = 0, prom_disk = 0,
      prom_logs = (\<lambda>_. 0), prom_ai_alerts = (\<lambda>_. 0)\<rparr>"

text \<open>
  What one call of \<open>add_log\<close> reads from outside: \<open>clock\<close> is \<^verbatim>\<open>time.strftime("%H:%M:%S")\<close>,
  \<open>iso_now\<close> is \<^verbatim>\<open>datetime.now().isoformat()\<close>, \<open>reply\<close> is what the external service does
  if it is asked, and \<open>container_text\<close> is the text that \<^verbatim>\<open>str()\<close> of the runtime gives for a
  list or a dict.
\<close>

record call_env =
  clock :: string
  iso_now :: string
  reply :: service_outcome
  container_text :: "json \<Rightarrow> string"

text \<open>
  \<^verbatim>\<open>PROM_AI_ALERTS.labels(severity=...)\<close> (line 66): \<^verbatim>\<open>Counter.labels\<close> turns the value into
  text with \<^verbatim>\<open>str()\<close>, so the string "None" and the JSON null count under one label.
\<close>

definition severity_label :: "num_format \<Rightarrow> call_env \<Rightarrow> json \<Rightarrow> string" where
  "severity_label fmt env v =
     (case v of
        JStr s \<Rightarrow> s
      | JNull \<Rightarrow> ''None''
      | JBool b \<Rightarrow> (if b then ''True'' else ''False'')
      | JInt i \<Rightarrow> str_int i
      | JFloat x \<Rightarrow> fmt x
      | _ \<Rightarrow> container_text env v)"

text \<open>\<^verbatim>\<open>message.split(":")[0] if ":" in message else "System"\<close>\<close>

definition metric_of_message :: "string \<Rightarrow> string" where
  "metric_of_message message =
     (if CHR '':'' \<in> set message then takeWhile (\<lambda>c. c \<noteq> CHR '':'') message else ''System'')"

text \<open>
  \<^verbatim>\<open>metrics.get('cpu') if metrics else 0\<close>: a dict is false when it is empty, and
  \<^verbatim>\<open>.get('cpu')\<close> is \<^verbatim>\<open>None\<close> when the key is absent. The record holds the three keys the
  code reads, so the dict counts as empty when all three are absent.
\<close>

definition alert_value :: "metrics option \<Rightarrow> real option" where
  "alert_value ms =
     (case ms of
        None \<Rightarrow> Some 0
      | Some m \<Rightarrow>
          if metrics_cpu m \<noteq> None \<or> metrics_memory m \<noteq> None \<or> metrics_disk m \<noteq> None
          then metrics_cpu m else Some 0)"

text \<open>Lines 41 and 55-63: the log line and the alert entry.\<close>

definition log_entry :: "call_env \<Rightarrow> string \<Rightarrow> string \<Rightarrow> string" where
  "log_entry env level message = clock env @ '' | '' @ upper level @ '' | '' @ message"

definition make_ai_entry :: "call_env \<Rightarrow> string \<Rightarrow> string \<Rightarrow> (string \<times> json) list \<Rightarrow> ai_entry" where
  "make_ai_entry env level message enhanced =
     \<lparr>entry_timestamp = clock env, entry_level = level, original_message = message,
      ai_explanation = dict_get enhanced ''explanation'' (JStr []),
      likely_causes = dict_get enhanced ''causes'' (JArr []),
      recommended_actions = dict_get enhanced ''actions'' (JArr []),
      entry_severity = dict_get enhanced ''severity'' (JStr ''medium'')\<rparr>"

text \<open>
  The \<^verbatim>\<open>try\<close> block of \<open>add_log\<close> (lines 46-73), entered when the level is a warning, an
  error or critical and \<open>ai_service\<close> is set. With the value \<^verbatim>\<open>None\<close>, \<open>enhance_alert\<close>
  raises TypeError at \<^verbatim>\<open>value > 80\<close>; a result that is not a dict has no \<^verbatim>\<open>.get\<close>. The
  \<^verbatim>\<open>except\<close> of \<open>add_log\<close> catches both, and the alert log stays as it is.
\<close>

definition ai_enhancement ::
  "num_format \<Rightarrow> app_state \<Rightarrow> AIService \<Rightarrow> string \<Rightarrow> string \<Rightarrow> metrics option \<Rightarrow> call_env \<Rightarrow> app_state" where
  "ai_enhancement fmt s svc level message ms env =
     (case alert_value ms of
        None \<Rightarrow> s
      | Some val \<Rightarrow>
          (let (enhanced, svc') =
                 enhance_alert fmt svc level (metric_of_message message) val
                   (Some [(''name'', ''localhost''), (''type'', ''monitoring_server'')]) None
                   (iso_now env) (reply env);
               s0 = s\<lparr>ai_service := Some svc'\<rparr>
           in (case enhanced of
                 JObj d \<Rightarrow>
                   (let entry = make_ai_entry env level message d;
                        s1 = s0\<lparr>ai_alerts_store := ai_alerts_store s0 @ [entry]\<rparr>;
                        label = severity_label fmt env (entry_severity entry);
                        s2 = s1\<lparr>prom_ai_alerts :=
                                  (prom_ai_alerts s1)(label := prom_ai_alerts s1 label + 1)\<rparr>
                    in if length (ai_alerts_store s2) > 20
                       then s2\<lparr>ai_alerts_store := tl (ai_alerts_store s2)\<rparr> else s2)
               | _ \<Rightarrow> s0)))"

definition add_log :: "num_format \<Rightarrow> app_state \<Rightarrow> string \<Rightarrow> string \<Rightarrow> metrics option \<Rightarrow> call_env \<Rightarrow> app_state" where
  "add_log fmt s level message ms env =
     (let s1 = s\<lparr>logs_store := logs_store s @ [log_entry env level message]\<rparr>;
          s2 = (if level \<in> set [''warning'', ''error'', ''critical'']
                then (case ai_service s1 of
                        None \<Rightarrow> s1
                      | Some svc \<Rightarrow> ai_enhancement fmt s1 svc level message ms env)
                else s1);
          s3 = (if length (logs_store s2) > 100 then s2\<lparr>logs_store := tl (logs_store s2)\<rparr> else s2)
      in s3\<lparr>prom_logs := (prom_logs s3)(level := prom_logs s3 level + 1)\<rparr>)"

subsection \<open>The sampling loop (background_monitor, lines 85-119)\<close>

text \<open>
  One iteration reads: what \<^verbatim>\<open>get_system_metrics()\<close> does (it raises, or returns the dict),
  \<^verbatim>\<open>int(time.time())\<close>, and the environment of the \<open>add_log\<close> call it makes.
\<close>

record tick_input =
  acquired :: "py_exception + metrics"
  wall_clock :: int
  tick_env :: call_env

text \<open>Lines 89-91: a missing key raises KeyError.\<close>

definition read_snapshot :: "metrics \<Rightarrow> py_exception + (real \<times> real \<times> real)" where
  "read_snapshot m =
     (case metrics_cpu m of
        None \<Rightarrow> Inl (KeyError ''cpu'')
      | Some cpu \<Rightarrow>
          (case metrics_memory m of
             None \<Rightarrow> Inl (KeyError ''memory'')
           | Some None \<Rightarrow> Inl (KeyError ''percent'')
           | Some (Some mem) \<Rightarrow>
               (case metrics_disk m of
                  None \<Rightarrow> Inl (KeyError ''disk'')
                | Some None \<Rightarrow> Inl (KeyError ''percent'')
                | Some (Some disk) \<Rightarrow> Inr (cpu, mem, disk))))"

text \<open>The body of the \<^verbatim>\<open>try\<close>: \<open>Inl\<close> is the exception that leaves it.\<close>

definition monitor_try :: "num_format \<Rightarrow> app_state \<Rightarrow> tick_input \<Rightarrow> py_exception + app_state" where
  "monitor_try fmt s inp =
     (case acquired inp of
        Inl e \<Rightarrow> Inl e
      | Inr m \<Rightarrow>
          (case read_snapshot m of
             Inl e \<Rightarrow> Inl e
           | Inr (cpu, mem, disk) \<Rightarrow>
               (let s1 = s\<lparr>prom_cpu := cpu, prom_mem := mem, prom_disk := disk\<rparr>;
                    (level, message) = classify fmt (wall_clock inp) cpu mem disk
                in Inr (add_log fmt s1 level message (Some m) (tick_env inp)))))"

text \<open>One iteration of \<^verbatim>\<open>while True\<close>, with the \<^verbatim>\<open>except Exception\<close> handler.\<close>

definition monitor_tick :: "num_format \<Rightarrow> app_state \<Rightarrow> tick_input \<Rightarrow> app_state" where
  "monitor_tick fmt s inp =
     (case monitor_try fmt s inp of
        Inl e \<Rightarrow> add_log fmt s ''error'' (''Monitor Error: '' @ str_exception e) None (tick_env inp)
      | Inr s' \<Rightarrow> s')"

text \<open>The loop never leaves \<^verbatim>\<open>while True\<close>; its run over the first ticks is a fold.\<close>

fun background_monitor :: "num_format \<Rightarrow> app_state \<Rightarrow> tick_input list \<Rightarrow> app_state" where
  "background_monitor fmt s [] = s"
| "background_monitor fmt s (inp # inps) = background_monitor fmt (monitor_tick fmt s inp) inps"

section \<open>Sequences of calls\<close>

text \<open>The last \<open>n\<close> elements of a list, in their order.\<close>

definition keep_last :: "nat \<Rightarrow> 'a list \<Rightarrow> 'a list" where
  "keep_last n xs = drop (length xs - n) xs"





text \<open>The response was received and parsed to a dict, and its fields.\<close>

definition service_succeeds :: "service_outcome \<Rightarrow> bool" where
  "service_succeeds outcome = (case call_service outcome of Inr (JObj d) \<Rightarrow> True | _ \<Rightarrow> False)"

definition response_fields :: "service_outcome \<Rightarrow> (string \<times> json) list" where
  "response_fields outcome = (case call_service outcome of Inr (JObj d) \<Rightarrow> d | _ \<Rightarrow> [])"


text \<open>The arguments and the environment of one call of \<open>add_log\<close>.\<close>

record log_call =
  call_level :: string
  call_message :: string
  call_metrics :: "metrics option"
  call_environment :: call_env

fun add_logs :: "num_format \<Rightarrow> app_state \<Rightarrow> log_call list \<Rightarrow> app_state" where
  "add_logs fmt s [] = s"
| "add_logs fmt s (c # cs) =
     add_logs fmt (add_log fmt s (call_level c) (call_message c) (call_metrics c) (call_environment c)) cs"

text \<open>The line a call appends to \<open>logs_store\<close>.\<close>

definition call_line :: "log_call \<Rightarrow> string" where
  "call_line c = log_entry (call_environment c) (call_level c) (call_message c)"

text \<open>The fields of a dict; nothing for any other value.\<close>

definition object_fields :: "json \<Rightarrow> (string \<times> json) list" where
  "object_fields j = (case j of JObj d \<Rightarrow> d | _ \<Rightarrow> [])"

text \<open>
  The entry a call appends to \<open>ai_alerts_store\<close>, if it appends one: the level asks for
  enrichment, a service object exists, and the value handed to \<open>enhance_alert\<close> is a number.
\<close>

definition appended_alert :: "num_format \<Rightarrow> AIService option \<Rightarrow> log_call \<Rightarrow> ai_entry option" where
  "appended_alert fmt service c =
     (if call_level c \<in> set [''warning'', ''error'', ''critical'']
      then (case service of
              None \<Rightarrow> None
            | Some svc \<Rightarrow>
                (case alert_value (call_metrics c) of
                   None \<Rightarrow> None
                 | Some val \<Rightarrow>
                     Some (make_ai_entry (call_environment c) (call_level c) (call_message c)
                       (object_fields (fst (enhance_alert fmt svc (call_level c)
                          (metric_of_message (call_message c)) val
                          (Some [(''name'', ''localhost''), (''type'', ''monitoring_server'')]) None
                          (iso_now (call_environment c)) (reply (call_environment c))))))))
      else None)"

text \<open>The level and the message of the one event a tick logs.\<close>

definition tick_event :: "num_format \<Rightarrow> tick_input \<Rightarrow> string \<times> string" where
  "tick_event fmt inp =
     (case acquired inp of
        Inl e \<Rightarrow> (''error'', ''Monitor Error: '' @ str_exception e)
      | Inr m \<Rightarrow>
          (case read_snapshot m of
             Inl e \<Rightarrow> (''error'', ''Monitor Error: '' @ str_exception e)
           | Inr (cpu, mem, disk) \<Rightarrow> classify fmt (wall_clock inp) cpu mem disk))"


definition sample_history :: "alert_record list" where
  "sample_history =
     [\<lparr>record_timestamp = ''t0'', record_metric = ''Disk'', record_value = 91,
       record_severity = JStr ''high''\<rparr>]"

definition text_fixed :: "string \<Rightarrow> json \<Rightarrow> string" where
  "text_fixed s v = s"

definition fmt_whole :: num_format where
  "fmt_whole x = str_nat (nat \<lfloor>x\<rfloor>)"

definition sample_env :: "service_outcome \<Rightarrow> call_env" where
  "sample_env outcome =
     \<lparr>clock = ''12:00:00'', iso_now = ''2024-01-01T12:00:00'', reply = outcome,
      container_text = text_fixed ''[]''\<rparr>"

definition sample_metrics :: "real \<Rightarrow> real \<Rightarrow> real \<Rightarrow> metrics" where
  "sample_metrics c m d = \<lparr>metrics_cpu = Some c, metrics_memory = Some (Some m), metrics_disk = Some (Some d)\<rparr>"

definition sample_call :: "nat \<Rightarrow> log_call" where
  "sample_call n =
     \<lparr>call_level = ''warning'', call_message = ''High CPU Load: '' @ str_nat n @ ''%'',
      call_metrics = Some (sample_metrics (real n) 0 0), call_environment = sample_env Timeout\<rparr>"

definition sample_alert :: "nat \<Rightarrow> ai_entry" where
  "sample_alert n =
     \<lparr>entry_timestamp = ''12:00:00'', entry_level = ''warning'',
      original_message = ''High CPU Load: '' @ str_nat n @ ''%'',
      ai_explanation = JStr ''High CPU Load is at x%'',
      likely_causes = JArr [JStr ''System load'', JStr ''Application demand'', JStr ''Background processes''],
      recommended_actions = JArr [JStr ''Check running processes'', JStr ''Monitor trends'', JStr ''Consider scaling''],
      entry_severity = JStr (if n > 80 then ''high'' else if n > 60 then ''medium'' else ''low'')\<rparr>"

definition sample_tick :: "string \<Rightarrow> py_exception + metrics \<Rightarrow> tick_input" where
  "sample_tick t a =
     \<lparr>acquired = a, wall_clock = 1700000001,
      tick_env = \<lparr>clock = t, iso_now = ''2024-01-01T'' @ t, reply = Timeout,
                  container_text = text_fixed ''[]''\<rparr>\<rparr>"


section \<open>Classification: priority order and thresholds\<close>

text \<open>
  Claim C1, as the specification states it, puts the critical CPU threshold at
  \<open>cpu \<ge> 90\<close> and the warning threshold at \<open>cpu \<ge> 70\<close>. The code compares with \<open>>\<close>: a
  reading of exactly 90 is logged as a warning, not as critical, and a reading of exactly
  70 is not a CPU warning.
\<close>

theorem classify_cpu_90_counterexample:
  "(90::real) \<ge> 90 \<and>
   fst (classify (fmt_fixed ''90.0'') 1 90 0 0) = ''warning'' \<and>
   fst (classify (fmt_fixed ''90.0'') 1 90 0 0) \<noteq> ''critical'' \<and>
   \<not> sublist ''CPU Critical'' (snd (classify (fmt_fixed ''90.0'') 1 90 0 0)) \<and>
   (70::real) \<ge> 70 \<and> (70::real) < 90 \<and>
   fst (classify (fmt_fixed ''70.0'') 1 70 0 0) = ''info'' \<and>
   fst (classify (fmt_fixed ''70.0'') 1 70 0 0) \<noteq> ''warning''"
  by (simp add: classify_def fmt_fixed_def sublist_code(3))

text \<open>
  Claim C1, amended: the metrics are tried in the order CPU critical, CPU warning, memory
  critical, memory warning, disk critical, disk warning, else informational, and the first
  match alone decides the event; every threshold is strict. A snapshot with \<open>cpu > 90\<close> is
  critical with a message containing "CPU Critical", \<open>70 < cpu \<le> 90\<close> is a warning, and
  \<open>cpu \<le> 70\<close> with memory and disk at most 80 is informational.
\<close>

theorem classify_priority_order:
  "(cpu > 90 \<longrightarrow>
      fst (classify fmt now_s cpu mem disk) = ''critical'' \<and>
      snd (classify fmt now_s cpu mem disk) = ''CPU Critical: '' @ fmt cpu @ ''%'' \<and>
      sublist ''CPU Critical'' (snd (classify fmt now_s cpu mem disk))) \<and>
   (70 < cpu \<and> cpu \<le> 90 \<longrightarrow>
      classify fmt now_s cpu mem disk = (''warning'', ''High CPU Load: '' @ fmt cpu @ ''%'')) \<and>
   (cpu \<le> 70 \<and> mem > 90 \<longrightarrow>
      classify fmt now_s cpu mem disk = (''critical'', ''Memory Critical: '' @ fmt mem @ ''%'')) \<and>
   (cpu \<le> 70 \<and> 80 < mem \<and> mem \<le> 90 \<longrightarrow>
      classify fmt now_s cpu mem disk = (''warning'', ''High Memory Usage: '' @ fmt mem @ ''%'')) \<and>
   (cpu \<le> 70 \<and> mem \<le> 80 \<and> disk > 90 \<longrightarrow>
      classify fmt now_s cpu mem disk = (''critical'', ''Disk Critical: '' @ fmt disk @ ''%'')) \<and>
   (cpu \<le> 70 \<and> mem \<le> 80 \<and> 80 < disk \<and> disk \<le> 90 \<longrightarrow>
      classify fmt now_s cpu mem disk = (''warning'', ''High Disk Usage: '' @ fmt disk @ ''%'')) \<and>
   (cpu \<le> 70 \<and> mem \<le> 80 \<and> disk \<le> 80 \<longrightarrow>
      fst (classify fmt now_s cpu mem disk) = ''info'')"
proof -
  have cont: "sublist ''CPU Critical'' (''CPU Critical: '' @ fmt cpu @ ''%'')"
    using sublist_append_rightI [of "''CPU Critical''" "'': '' @ fmt cpu @ ''%''"] by simp
  show ?thesis
    using cont by (simp add: classify_def)
qed

theorem classify_priority_order_witness:
  "fst (classify (fmt_fixed ''x'') 7 95 99 99) = ''critical'' \<and>
   sublist ''CPU Critical'' (snd (classify (fmt_fixed ''x'') 7 95 99 99)) \<and>
   classify (fmt_fixed ''x'') 7 90 99 99 = (''warning'', ''High CPU Load: x%'') \<and>
   classify (fmt_fixed ''x'') 7 70 95 99 = (''critical'', ''Memory Critical: x%'') \<and>
   classify (fmt_fixed ''x'') 7 10 85 99 = (''warning'', ''High Memory Usage: x%'') \<and>
   classify (fmt_fixed ''x'') 7 10 80 95 = (''critical'', ''Disk Critical: x%'') \<and>
   classify (fmt_fixed ''x'') 7 10 20 81 = (''warning'', ''High Disk Usage: x%'') \<and>
   fst (classify (fmt_fixed ''x'') 7 70 80 80) = ''info''"
  using classify_priority_order [where fmt = "fmt_fixed ''x''" and now_s = 7 and cpu = 95 and mem = 99 and disk = 99]
    classify_priority_order [where fmt = "fmt_fixed ''x''" and now_s = 7 and cpu = 90 and mem = 99 and disk = 99]
    classify_priority_order [where fmt = "fmt_fixed ''x''" and now_s = 7 and cpu = 70 and mem = 95 and disk = 99]
    classify_priority_order [where fmt = "fmt_fixed ''x''" and now_s = 7 and cpu = 10 and mem = 85 and disk = 99]
    classify_priority_order [where fmt = "fmt_fixed ''x''" and now_s = 7 and cpu = 10 and mem = 80 and disk = 95]
    classify_priority_order [where fmt = "fmt_fixed ''x''" and now_s = 7 and cpu = 10 and mem = 20 and disk = 81]
    classify_priority_order [where fmt = "fmt_fixed ''x''" and now_s = 7 and cpu = 70 and mem = 80 and disk = 80]
  by (simp add: fmt_fixed_def)

section \<open>Bounded lists\<close>

lemma evict_keep_last:
  "0 < n \<Longrightarrow>
     (let ys = keep_last n H @ [x] in if length ys > n then tl ys else ys) = keep_last n (H @ [x])"
proof (cases "length H < n")
  case True
  then show ?thesis by (simp add: keep_last_def Let_def)
next
  case False
  assume pos: "0 < n"
  with False have ne: "drop (length H - n) H \<noteq> []" by simp
  have "tl (drop (length H - n) H @ [x]) = drop (Suc (length H - n)) H @ [x]"
    using ne by (simp add: drop_Suc tl_drop)
  with False pos show ?thesis
    by (simp add: keep_last_def Let_def Suc_diff_le)
qed

lemma length_keep_last: "length (keep_last n xs) = min n (length xs)"
  by (simp add: keep_last_def)

lemma keep_last_short: "length xs \<le> n \<Longrightarrow> keep_last n xs = xs"
  by (simp add: keep_last_def)


section \<open>The enrichment service: fallback and history\<close>





lemma enhance_alert_client:
  "client (snd (enhance_alert fmt self alert_type metric val server threshold now outcome)) = client self"
proof (cases outcome)
  case (Parsed j)
  then show ?thesis
    by (cases j) (simp_all add: enhance_alert_def enhance_alert_try_def Let_def)
qed (simp_all add: enhance_alert_def enhance_alert_try_def)

lemma enhance_alert_result:
  "fst (enhance_alert fmt self alert_type metric val server threshold now outcome) =
     (if client self \<and> service_succeeds outcome then JObj (response_fields outcome)
      else default_response fmt metric val)"
proof (cases outcome)
  case (Parsed j)
  then show ?thesis
    by (cases j) (simp_all add: enhance_alert_def enhance_alert_try_def service_succeeds_def
        response_fields_def Let_def)
qed (simp_all add: enhance_alert_def enhance_alert_try_def service_succeeds_def)




text \<open>
  Claim C4: with no external service configured, \<open>enhance_alert\<close> returns the fixed causes,
  actions and related metrics, an explanation that restates metric and value, and a severity
  that depends on the value alone (above 80 high, above 60 medium, else low), whatever the
  other arguments, the clock and the alert history are; the service object, with its alert
  history, is returned as it was.
\<close>

theorem enhance_alert_fallback_deterministic:
  assumes "\<not> client self"
  shows "enhance_alert fmt self alert_type metric val server threshold now outcome =
       (JObj
         [(''explanation'', JStr (metric @ '' is at '' @ fmt val @ ''%'')),
          (''causes'', JArr [JStr ''System load'', JStr ''Application demand'', JStr ''Background processes'']),
          (''actions'', JArr [JStr ''Check running processes'', JStr ''Monitor trends'', JStr ''Consider scaling'']),
          (''severity'', JStr (if val > 80 then ''high'' else if val > 60 then ''medium'' else ''low'')),
          (''related_metrics'', JArr [JStr ''memory_usage'', JStr ''disk_io'', JStr ''network_traffic''])],
        self)"
  using assms by (simp add: enhance_alert_def default_response_def)

theorem enhance_alert_fallback_deterministic_witness:
  "\<not> client \<lparr>client = False, alert_history = sample_history\<rparr> \<and>
   enhance_alert (fmt_fixed ''85'') \<lparr>client = False, alert_history = sample_history\<rparr>
       ''warning'' ''CPU'' 85 None None ''t1'' Timeout =
     (JObj
       [(''explanation'', JStr ''CPU is at 85%''),
        (''causes'', JArr [JStr ''System load'', JStr ''Application demand'', JStr ''Background processes'']),
        (''actions'', JArr [JStr ''Check running processes'', JStr ''Monitor trends'', JStr ''Consider scaling'']),
        (''severity'', JStr ''high''),
        (''related_metrics'', JArr [JStr ''memory_usage'', JStr ''disk_io'', JStr ''network_traffic''])],
      \<lparr>client = False, alert_history = sample_history\<rparr>) \<and>
   dict_get (case fst (enhance_alert (fmt_fixed ''65'') \<lparr>client = False, alert_history = sample_history\<rparr>
       ''warning'' ''CPU'' 65 None None ''t2'' (Parsed JNull)) of JObj d \<Rightarrow> d) ''severity'' JNull = JStr ''medium'' \<and>
   dict_get (case fst (enhance_alert (fmt_fixed ''30'') \<lparr>client = False, alert_history = sample_history\<rparr>
       ''warning'' ''CPU'' 30 None None ''t3'' ServiceError) of JObj d \<Rightarrow> d) ''severity'' JNull = JStr ''low''"
  using enhance_alert_fallback_deterministic
      [of "\<lparr>client = False, alert_history = sample_history\<rparr>" "fmt_fixed ''85''"
        "''warning''" "''CPU''" 85 None None "''t1''" Timeout]
    enhance_alert_fallback_deterministic
      [of "\<lparr>client = False, alert_history = sample_history\<rparr>" "fmt_fixed ''65''"
        "''warning''" "''CPU''" 65 None None "''t2''" "Parsed JNull"]
    enhance_alert_fallback_deterministic
      [of "\<lparr>client = False, alert_history = sample_history\<rparr>" "fmt_fixed ''30''"
        "''warning''" "''CPU''" 30 None None "''t3''" ServiceError]
  by (simp add: fmt_fixed_def dict_get_def)









section \<open>The logs: what one call of add_log does\<close>

lemma enhance_alert_is_object:
  "\<exists>d. fst (enhance_alert fmt self alert_type metric val server threshold now outcome) = JObj d"
  by (simp add: enhance_alert_result default_response_def)

lemma ai_enhancement_logs:
  "logs_store (ai_enhancement fmt s svc level message ms env) = logs_store s"
proof -
  obtain d where "fst (enhance_alert fmt svc level (metric_of_message message) (the (alert_value ms))
      (Some [(''name'', ''localhost''), (''type'', ''monitoring_server'')]) None (iso_now env) (reply env)) = JObj d"
    using enhance_alert_is_object by blast
  then show ?thesis
    by (cases "alert_value ms") (simp_all add: ai_enhancement_def split_beta Let_def)
qed

lemma ai_enhancement_prom_logs:
  "prom_logs (ai_enhancement fmt s svc level message ms env) = prom_logs s"
proof -
  obtain d where "fst (enhance_alert fmt svc level (metric_of_message message) (the (alert_value ms))
      (Some [(''name'', ''localhost''), (''type'', ''monitoring_server'')]) None (iso_now env) (reply env)) = JObj d"
    using enhance_alert_is_object by blast
  then show ?thesis
    by (cases "alert_value ms") (simp_all add: ai_enhancement_def split_beta Let_def)
qed

lemma add_log_logs:
  "logs_store (add_log fmt s level message ms env) =
     (let ys = logs_store s @ [log_entry env level message] in if length ys > 100 then tl ys else ys)"
  by (simp add: add_log_def Let_def ai_enhancement_logs split: option.splits)

lemma add_log_prom_logs:
  "prom_logs (add_log fmt s level message ms env) = (prom_logs s)(level := prom_logs s level + 1)"
  by (simp add: add_log_def Let_def ai_enhancement_prom_logs split: option.splits)

lemma ai_enhancement_alerts:
  "ai_alerts_store (ai_enhancement fmt s svc level message ms env) =
     (case alert_value ms of
        None \<Rightarrow> ai_alerts_store s
      | Some val \<Rightarrow>
          (let ys = ai_alerts_store s @
                 [make_ai_entry env level message
                    (object_fields (fst (enhance_alert fmt svc level (metric_of_message message) val
                       (Some [(''name'', ''localhost''), (''type'', ''monitoring_server'')]) None
                       (iso_now env) (reply env))))]
           in if length ys > 20 then tl ys else ys))"
proof (cases "alert_value ms")
  case None
  then show ?thesis by (simp add: ai_enhancement_def)
next
  case (Some val)
  obtain d where "fst (enhance_alert fmt svc level (metric_of_message message) val
      (Some [(''name'', ''localhost''), (''type'', ''monitoring_server'')]) None (iso_now env) (reply env)) = JObj d"
    using enhance_alert_is_object by blast
  with Some show ?thesis
    by (simp add: ai_enhancement_def split_beta Let_def object_fields_def)
qed

lemma add_log_alerts_step:
  "ai_alerts_store (add_log fmt s level message ms env) =
     (if level \<in> set [''warning'', ''error'', ''critical'']
      then (case ai_service s of
              None \<Rightarrow> ai_alerts_store s
            | Some svc \<Rightarrow>
                ai_alerts_store (ai_enhancement fmt
                  (s\<lparr>logs_store := logs_store s @ [log_entry env level message]\<rparr>) svc level message ms env))
      else ai_alerts_store s)"
  by (cases "ai_service s") (simp_all add: add_log_def Let_def)

lemma add_log_alerts:
  "ai_alerts_store (add_log fmt s (call_level c) (call_message c) (call_metrics c) (call_environment c)) =
     (case appended_alert fmt (ai_service s) c of
        None \<Rightarrow> ai_alerts_store s
      | Some e \<Rightarrow> (let ys = ai_alerts_store s @ [e] in if length ys > 20 then tl ys else ys))"
proof (cases "call_level c \<in> set [''warning'', ''error'', ''critical'']")
  case False
  then show ?thesis
    by (simp only: add_log_alerts_step appended_alert_def if_False option.case)
next
  case True
  show ?thesis
  proof (cases "ai_service s")
    case None
    with True show ?thesis
      by (simp only: add_log_alerts_step appended_alert_def if_True option.case)
  next
    case (Some svc)
    show ?thesis
    proof (cases "alert_value (call_metrics c)")
      case None
      with True Some show ?thesis
        by (simp only: add_log_alerts_step appended_alert_def if_True option.case
            ai_enhancement_alerts) simp
    next
      case (Some val)
      with True \<open>ai_service s = Some svc\<close> show ?thesis
        by (simp only: add_log_alerts_step appended_alert_def if_True option.case
            ai_enhancement_alerts) simp
    qed
  qed
qed

lemma ai_enhancement_service:
  "map_option client (ai_service (ai_enhancement fmt s svc level message ms env)) =
     (case alert_value ms of None \<Rightarrow> map_option client (ai_service s) | Some val \<Rightarrow> Some (client svc))"
proof (cases "alert_value ms")
  case None
  then show ?thesis by (simp add: ai_enhancement_def)
next
  case (Some val)
  obtain d where "fst (enhance_alert fmt svc level (metric_of_message message) val
      (Some [(''name'', ''localhost''), (''type'', ''monitoring_server'')]) None (iso_now env) (reply env)) = JObj d"
    using enhance_alert_is_object by blast
  with Some show ?thesis
    by (simp add: ai_enhancement_def split_beta Let_def enhance_alert_client)
qed

lemma add_log_service:
  "map_option client (ai_service (add_log fmt s level message ms env)) = map_option client (ai_service s)"
  by (simp add: add_log_def Let_def ai_enhancement_service split: option.splits)

lemma appended_alert_client:
  "map_option client a = map_option client b \<Longrightarrow> appended_alert fmt a c = appended_alert fmt b c"
  by (cases a; cases b) (simp_all add: appended_alert_def enhance_alert_result split: option.splits)

section \<open>The logs: sequences of calls and ticks\<close>

lemma add_logs_logs:
  "logs_store s = keep_last 100 H \<Longrightarrow>
     logs_store (add_logs fmt s calls) = keep_last 100 (H @ map call_line calls)"
proof (induction calls arbitrary: s H)
  case Nil
  then show ?case by simp
next
  case (Cons c cs)
  have "logs_store (add_log fmt s (call_level c) (call_message c) (call_metrics c) (call_environment c)) =
      keep_last 100 (H @ [call_line c])"
    using Cons.prems evict_keep_last [of 100 H "call_line c"]
    by (simp add: add_log_logs call_line_def Let_def)
  from Cons.IH [OF this] show ?case by simp
qed

lemma add_logs_alerts:
  "ai_alerts_store s = keep_last 20 H \<Longrightarrow> map_option client (ai_service s) = map_option client service \<Longrightarrow>
     ai_alerts_store (add_logs fmt s calls) =
       keep_last 20 (H @ List.map_filter (appended_alert fmt service) calls)"
proof (induction calls arbitrary: s H)
  case Nil
  then show ?case by simp
next
  case (Cons c cs)
  let ?s' = "add_log fmt s (call_level c) (call_message c) (call_metrics c) (call_environment c)"
  have same: "appended_alert fmt (ai_service s) c = appended_alert fmt service c"
    using Cons.prems(2) by (rule appended_alert_client)
  have svc: "map_option client (ai_service ?s') = map_option client service"
    using Cons.prems(2) by (simp add: add_log_service)
  show ?case
  proof (cases "appended_alert fmt service c")
    case None
    with same Cons.prems(1) have "ai_alerts_store ?s' = keep_last 20 H"
      using add_log_alerts [of fmt s c]
      by simp
    from Cons.IH [OF this svc] None show ?thesis
      by simp
  next
    case (Some e)
    with same Cons.prems(1) have "ai_alerts_store ?s' = keep_last 20 (H @ [e])"
      using add_log_alerts [of fmt s c]
        evict_keep_last [of 20 H e]
      by (simp add: Let_def)
    from Cons.IH [OF this svc] Some show ?thesis
      by simp
  qed
qed

lemma monitor_tick_as_add_log:
  "monitor_tick fmt s inp =
     (case acquired inp of
        Inl e \<Rightarrow> add_log fmt s ''error'' (''Monitor Error: '' @ str_exception e) None (tick_env inp)
      | Inr m \<Rightarrow>
          (case read_snapshot m of
             Inl e \<Rightarrow> add_log fmt s ''error'' (''Monitor Error: '' @ str_exception e) None (tick_env inp)
           | Inr (cpu, mem, disk) \<Rightarrow>
               add_log fmt (s\<lparr>prom_cpu := cpu, prom_mem := mem, prom_disk := disk\<rparr>)
                 (fst (classify fmt (wall_clock inp) cpu mem disk))
                 (snd (classify fmt (wall_clock inp) cpu mem disk)) (Some m) (tick_env inp)))"
  by (simp add: monitor_tick_def monitor_try_def Let_def split_beta split: sum.splits prod.splits)

lemma monitor_tick_prom_logs:
  "prom_logs (monitor_tick fmt s inp) =
     (prom_logs s)(fst (tick_event fmt inp) := prom_logs s (fst (tick_event fmt inp)) + 1)"
  by (simp add: monitor_tick_as_add_log tick_event_def add_log_prom_logs split: sum.splits prod.splits)

lemma last_bounded: "0 < n \<Longrightarrow> last (let ys = xs @ [x] in if length ys > n then tl ys else ys) = x"
  by (cases xs) (simp_all add: Let_def)

lemma add_log_last: "last (logs_store (add_log fmt s level message ms env)) = log_entry env level message"
  using last_bounded [of 100 "logs_store s" "log_entry env level message"]
  by (simp only: add_log_logs)

lemma monitor_tick_last:
  "last (logs_store (monitor_tick fmt s inp)) =
     log_entry (tick_env inp) (fst (tick_event fmt inp)) (snd (tick_event fmt inp))"
  by (simp add: monitor_tick_as_add_log tick_event_def add_log_last split: sum.splits prod.splits)

lemma background_monitor_append:
  "background_monitor fmt s (xs @ ys) = background_monitor fmt (background_monitor fmt s xs) ys"
  by (induction xs arbitrary: s) simp_all

lemma background_monitor_prom_logs:
  "prom_logs (background_monitor fmt s inps) l =
     prom_logs s l + length (filter (\<lambda>i. fst (tick_event fmt i) = l) inps)"
  by (induction inps arbitrary: s) (simp_all add: monitor_tick_prom_logs)

section \<open>The alert entry of a call\<close>

lemma add_log_alerts_last:
  "appended_alert fmt (ai_service s) c = Some e \<Longrightarrow>
     ai_alerts_store (add_log fmt s (call_level c) (call_message c) (call_metrics c) (call_environment c)) \<noteq> [] \<and>
     last (ai_alerts_store (add_log fmt s (call_level c) (call_message c) (call_metrics c) (call_environment c))) = e"
  using last_bounded [of 20 "ai_alerts_store s" e]
  by (cases "ai_alerts_store s") (simp_all add: add_log_alerts Let_def)

lemma ai_enhancement_prom_ai_alerts:
  "prom_ai_alerts (ai_enhancement fmt s svc level message ms env) =
     (case alert_value ms of
        None \<Rightarrow> prom_ai_alerts s
      | Some val \<Rightarrow>
          (let label = severity_label fmt env (entry_severity (make_ai_entry env level message
                 (object_fields (fst (enhance_alert fmt svc level (metric_of_message message) val
                    (Some [(''name'', ''localhost''), (''type'', ''monitoring_server'')]) None
                    (iso_now env) (reply env))))))
           in (prom_ai_alerts s)(label := prom_ai_alerts s label + 1)))"
proof (cases "alert_value ms")
  case None
  then show ?thesis by (simp add: ai_enhancement_def)
next
  case (Some val)
  obtain d where "fst (enhance_alert fmt svc level (metric_of_message message) val
      (Some [(''name'', ''localhost''), (''type'', ''monitoring_server'')]) None (iso_now env) (reply env)) = JObj d"
    using enhance_alert_is_object by blast
  with Some show ?thesis
    by (simp add: ai_enhancement_def split_beta Let_def object_fields_def)
qed

lemma add_log_prom_ai_alerts:
  "prom_ai_alerts (add_log fmt s (call_level c) (call_message c) (call_metrics c) (call_environment c)) =
     (case appended_alert fmt (ai_service s) c of
        None \<Rightarrow> prom_ai_alerts s
      | Some e \<Rightarrow>
          (prom_ai_alerts s)
            (severity_label fmt (call_environment c) (entry_severity e) :=
               prom_ai_alerts s (severity_label fmt (call_environment c) (entry_severity e)) + 1))"
  by (cases "ai_service s"; cases "alert_value (call_metrics c)")
    (simp_all add: add_log_def appended_alert_def ai_enhancement_prom_ai_alerts Let_def)

lemma ai_enhancement_ai_service:
  "ai_service (ai_enhancement fmt s svc level message ms env) =
     (case alert_value ms of
        None \<Rightarrow> ai_service s
      | Some val \<Rightarrow>
          Some (snd (enhance_alert fmt svc level (metric_of_message message) val
            (Some [(''name'', ''localhost''), (''type'', ''monitoring_server'')]) None
            (iso_now env) (reply env))))"
proof (cases "alert_value ms")
  case None
  then show ?thesis by (simp add: ai_enhancement_def)
next
  case (Some val)
  obtain d where "fst (enhance_alert fmt svc level (metric_of_message message) val
      (Some [(''name'', ''localhost''), (''type'', ''monitoring_server'')]) None (iso_now env) (reply env)) = JObj d"
    using enhance_alert_is_object by blast
  with Some show ?thesis
    by (simp add: ai_enhancement_def split_beta Let_def)
qed

lemma add_log_ai_service:
  "ai_service (add_log fmt s level message ms env) =
     (if level \<in> set [''warning'', ''error'', ''critical'']
      then (case ai_service s of
              None \<Rightarrow> None
            | Some svc \<Rightarrow>
                (case alert_value ms of
                   None \<Rightarrow> Some svc
                 | Some val \<Rightarrow>
                     Some (snd (enhance_alert fmt svc level (metric_of_message message) val
                       (Some [(''name'', ''localhost''), (''type'', ''monitoring_server'')]) None
                       (iso_now env) (reply env)))))
      else ai_service s)"
  by (cases "ai_service s"; cases "alert_value ms")
    (simp_all add: add_log_def Let_def ai_enhancement_ai_service)

lemma appended_alert_severity:
  "appended_alert fmt (Some svc) c = Some e \<Longrightarrow> alert_value (call_metrics c) = Some val \<Longrightarrow>
     entry_severity e =
       (if client svc \<and> service_succeeds (reply (call_environment c))
        then dict_get (response_fields (reply (call_environment c))) ''severity'' (JStr ''medium'')
        else JStr (if val > 80 then ''high'' else if val > 60 then ''medium'' else ''low''))"
  by (auto simp add: appended_alert_def enhance_alert_result make_ai_entry_def object_fields_def
      default_response_def dict_get_def split: if_splits)

section \<open>The severity of an enriched alert\<close>

text \<open>
  Claim C6, as the specification states it, wants every stored severity to be one of low,
  medium, high, and any other value of a response coerced or rejected. The code stores and
  counts what the response carries: a response with the severity "catastrophic" gives an
  alert entry with that severity and increments the counter with that label.
\<close>

theorem severity_not_validated_counterexample:
  "ai_alerts_store (add_log (fmt_fixed ''95'') (initial_state (Some (new_AIService True)))
       ''critical'' ''CPU Critical: 95%'' (Some (sample_metrics 95 40 40))
       (sample_env (Parsed (JObj [(''severity'', JStr ''catastrophic'')])))) =
     [\<lparr>entry_timestamp = ''12:00:00'', entry_level = ''critical'',
       original_message = ''CPU Critical: 95%'', ai_explanation = JStr [],
       likely_causes = JArr [], recommended_actions = JArr [],
       entry_severity = JStr ''catastrophic''\<rparr>] \<and>
   prom_ai_alerts (add_log (fmt_fixed ''95'') (initial_state (Some (new_AIService True)))
       ''critical'' ''CPU Critical: 95%'' (Some (sample_metrics 95 40 40))
       (sample_env (Parsed (JObj [(''severity'', JStr ''catastrophic'')])))) ''catastrophic'' = 1 \<and>
   JStr ''catastrophic'' \<notin> {JStr ''low'', JStr ''medium'', JStr ''high''} \<and>
   ''catastrophic'' \<notin> {''low'', ''medium'', ''high''}"
  by (simp add: add_log_def ai_enhancement_def enhance_alert_def enhance_alert_try_def
      initial_state_def new_AIService_def sample_env_def sample_metrics_def alert_value_def
      make_ai_entry_def dict_get_def severity_label_def Let_def)

text \<open>
  Claim C6, amended: the severity of the alert entry that \<open>add_log\<close> appends is the severity
  value of the response whenever the service answered with a dict, as it was received and
  without validation ("medium" only when the dict has no severity key); on the fallback
  path it is high, medium or low by the value. The counter is incremented by one under the
  label that \<^verbatim>\<open>str()\<close> makes of that severity (a string is its own label, null is counted
  under "None"), and under no other label.
\<close>

theorem alert_severity_passed_through:
  assumes "level \<in> set [''warning'', ''error'', ''critical'']"
    and "ai_service s = Some svc"
    and "alert_value ms = Some val"
  shows "ai_alerts_store (add_log fmt s level message ms env) \<noteq> [] \<and>
     entry_severity (last (ai_alerts_store (add_log fmt s level message ms env))) =
       (if client svc \<and> service_succeeds (reply env)
        then dict_get (response_fields (reply env)) ''severity'' (JStr ''medium'')
        else JStr (if val > 80 then ''high'' else if val > 60 then ''medium'' else ''low'')) \<and>
     prom_ai_alerts (add_log fmt s level message ms env) =
       (prom_ai_alerts s)
         (severity_label fmt env (entry_severity (last (ai_alerts_store (add_log fmt s level message ms env)))) :=
            prom_ai_alerts s
              (severity_label fmt env
                 (entry_severity (last (ai_alerts_store (add_log fmt s level message ms env))))) + 1) \<and>
     severity_label fmt env (JStr t) = t \<and>
     severity_label fmt env JNull = ''None'' \<and>
     (client svc \<and> reply env = Parsed (JObj d) \<and> map_of d ''severity'' = Some v \<longrightarrow>
        entry_severity (last (ai_alerts_store (add_log fmt s level message ms env))) = v)"
proof -
  let ?c = "\<lparr>call_level = level, call_message = message, call_metrics = ms, call_environment = env\<rparr>"
  from assms obtain e where e: "appended_alert fmt (ai_service s) ?c = Some e"
    by (simp add: appended_alert_def)
  have stored: "ai_alerts_store (add_log fmt s level message ms env) \<noteq> []"
    and last: "last (ai_alerts_store (add_log fmt s level message ms env)) = e"
    using add_log_alerts_last [OF e] by simp_all
  have sev: "entry_severity e =
      (if client svc \<and> service_succeeds (reply env)
       then dict_get (response_fields (reply env)) ''severity'' (JStr ''medium'')
       else JStr (if val > 80 then ''high'' else if val > 60 then ''medium'' else ''low''))"
    using appended_alert_severity [of fmt svc ?c e val] e assms by simp
  have counted: "prom_ai_alerts (add_log fmt s level message ms env) =
      (prom_ai_alerts s)
        (severity_label fmt env (entry_severity e) :=
           prom_ai_alerts s (severity_label fmt env (entry_severity e)) + 1)"
    using add_log_prom_ai_alerts [of fmt s ?c] e by simp
  have labels: "severity_label fmt env (JStr t) = t" "severity_label fmt env JNull = ''None''"
    by (simp_all add: severity_label_def)
  have as_is: "client svc \<and> reply env = Parsed (JObj d) \<and> map_of d ''severity'' = Some v \<longrightarrow>
      entry_severity e = v"
    using sev by (auto simp add: service_succeeds_def response_fields_def dict_get_def)
  from stored sev counted labels as_is show ?thesis
    by (simp only: last simp_thms)
qed

theorem alert_severity_passed_through_witness:
  "''critical'' \<in> set [''warning'', ''error'', ''critical''] \<and>
   ai_service (initial_state (Some (new_AIService True))) = Some (new_AIService True) \<and>
   alert_value (Some (sample_metrics 65 40 40)) = Some 65 \<and>
   entry_severity (last (ai_alerts_store (add_log (fmt_fixed ''65'')
     (initial_state (Some (new_AIService True))) ''critical'' ''Disk Critical: 95%''
     (Some (sample_metrics 65 40 40)) (sample_env (Parsed (JObj [(''severity'', JStr ''urgent'')])))))) =
     JStr ''urgent'' \<and>
   prom_ai_alerts (add_log (fmt_fixed ''65'')
     (initial_state (Some (new_AIService True))) ''critical'' ''Disk Critical: 95%''
     (Some (sample_metrics 65 40 40)) (sample_env (Parsed (JObj [(''severity'', JStr ''urgent'')]))))
     ''urgent'' = 1 \<and>
   entry_severity (last (ai_alerts_store (add_log (fmt_fixed ''65'')
     (initial_state (Some (new_AIService True))) ''critical'' ''Disk Critical: 95%''
     (Some (sample_metrics 65 40 40)) (sample_env (Parsed (JObj [(''explanation'', JNull)])))))) =
     JStr ''medium'' \<and>
   entry_severity (last (ai_alerts_store (add_log (fmt_fixed ''65'')
     (initial_state (Some (new_AIService True))) ''critical'' ''Disk Critical: 95%''
     (Some (sample_metrics 65 40 40)) (sample_env Timeout)))) =
     JStr ''medium'' \<and>
   entry_severity (last (ai_alerts_store (add_log (fmt_fixed ''65'')
     (initial_state (Some (new_AIService True))) ''critical'' ''Disk Critical: 95%''
     (Some (sample_metrics 65 40 40)) (sample_env (Parsed (JObj [(''severity'', JNull)])))))) =
     JNull \<and>
   prom_ai_alerts (add_log (fmt_fixed ''65'')
     (initial_state (Some (new_AIService True))) ''critical'' ''Disk Critical: 95%''
     (Some (sample_metrics 65 40 40)) (sample_env (Parsed (JObj [(''severity'', JNull)]))))
     ''None'' = 1 \<and>
   prom_ai_alerts (add_log (fmt_fixed ''65'')
     (initial_state (Some (new_AIService True))) ''critical'' ''Disk Critical: 95%''
     (Some (sample_metrics 65 40 40)) (sample_env (Parsed (JObj [(''severity'', JStr ''None'')]))))
     ''None'' = 1"
  using alert_severity_passed_through
      [where level = "''critical''" and s = "initial_state (Some (new_AIService True))"
        and svc = "new_AIService True" and ms = "Some (sample_metrics 65 40 40)" and val = 65
        and fmt = "fmt_fixed ''65''" and message = "''Disk Critical: 95%''"
        and env = "sample_env (Parsed (JObj [(''severity'', JStr ''urgent'')]))"
        and d = "[(''severity'', JStr ''urgent'')]" and v = "JStr ''urgent''" and t = "''urgent''"]
    alert_severity_passed_through
      [where level = "''critical''" and s = "initial_state (Some (new_AIService True))"
        and svc = "new_AIService True" and ms = "Some (sample_metrics 65 40 40)" and val = 65
        and fmt = "fmt_fixed ''65''" and message = "''Disk Critical: 95%''"
        and env = "sample_env (Parsed (JObj [(''explanation'', JNull)]))"
        and d = "[(''explanation'', JNull)]" and v = JNull and t = "''urgent''"]
    alert_severity_passed_through
      [where level = "''critical''" and s = "initial_state (Some (new_AIService True))"
        and svc = "new_AIService True" and ms = "Some (sample_metrics 65 40 40)" and val = 65
        and fmt = "fmt_fixed ''65''" and message = "''Disk Critical: 95%''"
        and env = "sample_env Timeout" and d = "[]" and v = JNull and t = "''urgent''"]
    alert_severity_passed_through
      [where level = "''critical''" and s = "initial_state (Some (new_AIService True))"
        and svc = "new_AIService True" and ms = "Some (sample_metrics 65 40 40)" and val = 65
        and fmt = "fmt_fixed ''65''" and message = "''Disk Critical: 95%''"
        and env = "sample_env (Parsed (JObj [(''severity'', JNull)]))"
        and d = "[(''severity'', JNull)]" and v = JNull and t = "''None''"]
    alert_severity_passed_through
      [where level = "''critical''" and s = "initial_state (Some (new_AIService True))"
        and svc = "new_AIService True" and ms = "Some (sample_metrics 65 40 40)" and val = 65
        and fmt = "fmt_fixed ''65''" and message = "''Disk Critical: 95%''"
        and env = "sample_env (Parsed (JObj [(''severity'', JStr ''None'')]))"
        and d = "[(''severity'', JStr ''None'')]" and v = "JStr ''None''" and t = "''None''"]
  by (simp add: initial_state_def new_AIService_def sample_metrics_def sample_env_def alert_value_def
      service_succeeds_def response_fields_def dict_get_def severity_label_def)

section \<open>The value handed to the enrichment\<close>

lemma add_log_last_alert:
  assumes "level \<in> set [''warning'', ''error'', ''critical'']"
    and "ai_service s = Some svc"
    and "alert_value ms = Some val"
  shows "last (ai_alerts_store (add_log fmt s level message ms env)) =
      make_ai_entry env level message
        (object_fields (fst (enhance_alert fmt svc level (metric_of_message message) val
           (Some [(''name'', ''localhost''), (''type'', ''monitoring_server'')]) None
           (iso_now env) (reply env))))"
proof -
  let ?c = "\<lparr>call_level = level, call_message = message, call_metrics = ms, call_environment = env\<rparr>"
  from assms have "appended_alert fmt (ai_service s) ?c =
      Some (make_ai_entry env level message
        (object_fields (fst (enhance_alert fmt svc level (metric_of_message message) val
           (Some [(''name'', ''localhost''), (''type'', ''monitoring_server'')]) None
           (iso_now env) (reply env)))))"
    by (simp add: appended_alert_def)
  from add_log_alerts_last [OF this] show ?thesis by simp
qed

lemma read_snapshot_cpu: "read_snapshot m = Inr (c, mem, d) \<Longrightarrow> metrics_cpu m = Some c"
  by (simp add: read_snapshot_def split: option.splits)

lemma classify_alert_level:
  "c > 70 \<or> mem > 80 \<or> d > 80 \<Longrightarrow>
     fst (classify fmt now_s c mem d) \<in> set [''warning'', ''error'', ''critical'']"
  by (auto simp add: classify_def)

text \<open>
  Claim C10: every enrichment call that \<open>add_log\<close> makes passes the CPU percentage of the
  snapshot as the value, or 0 when no snapshot is given, whatever metric triggered the
  event. So when the sampling loop logs a memory or disk alert (CPU at most 70) and the
  fallback answers, the severity of the alert entry is read off the CPU reading (medium
  above 60, else low) and its explanation quotes the CPU reading.
\<close>

theorem add_log_enriches_with_cpu_value:
  assumes "ai_service s = Some svc"
  shows "alert_value None = Some 0 \<and>
     (metrics_cpu m = Some c \<longrightarrow> alert_value (Some m) = Some c) \<and>
     (level \<in> set [''warning'', ''error'', ''critical''] \<and> alert_value ms = Some val \<longrightarrow>
        last (ai_alerts_store (add_log fmt s level message ms env)) =
          make_ai_entry env level message
            (object_fields (fst (enhance_alert fmt svc level (metric_of_message message) val
               (Some [(''name'', ''localhost''), (''type'', ''monitoring_server'')]) None
               (iso_now env) (reply env)))) \<and>
        ai_service (add_log fmt s level message ms env) =
          Some (snd (enhance_alert fmt svc level (metric_of_message message) val
             (Some [(''name'', ''localhost''), (''type'', ''monitoring_server'')]) None
             (iso_now env) (reply env)))) \<and>
     (acquired inp = Inr m \<and> read_snapshot m = Inr (c, mem, d) \<and> (c > 70 \<or> mem > 80 \<or> d > 80) \<longrightarrow>
        last (ai_alerts_store (monitor_tick fmt s inp)) =
          make_ai_entry (tick_env inp)
            (fst (classify fmt (wall_clock inp) c mem d)) (snd (classify fmt (wall_clock inp) c mem d))
            (object_fields (fst (enhance_alert fmt svc (fst (classify fmt (wall_clock inp) c mem d))
               (metric_of_message (snd (classify fmt (wall_clock inp) c mem d))) c
               (Some [(''name'', ''localhost''), (''type'', ''monitoring_server'')]) None
               (iso_now (tick_env inp)) (reply (tick_env inp)))))) \<and>
     (acquired inp = Inr m \<and> read_snapshot m = Inr (c, mem, d) \<and> c \<le> 70 \<and> (mem > 80 \<or> d > 80) \<and>
      \<not> (client svc \<and> service_succeeds (reply (tick_env inp))) \<longrightarrow>
        entry_severity (last (ai_alerts_store (monitor_tick fmt s inp))) =
          JStr (if c > 60 then ''medium'' else ''low'') \<and>
        ai_explanation (last (ai_alerts_store (monitor_tick fmt s inp))) =
          JStr (metric_of_message (snd (classify fmt (wall_clock inp) c mem d)) @ '' is at '' @ fmt c @ ''%''))"
proof -
  have none: "alert_value None = Some 0"
    by (simp add: alert_value_def)
  have some: "metrics_cpu m = Some c \<longrightarrow> alert_value (Some m) = Some c"
    by (simp add: alert_value_def)
  have call: "level \<in> set [''warning'', ''error'', ''critical''] \<and> alert_value ms = Some val \<longrightarrow>
      last (ai_alerts_store (add_log fmt s level message ms env)) =
        make_ai_entry env level message
          (object_fields (fst (enhance_alert fmt svc level (metric_of_message message) val
             (Some [(''name'', ''localhost''), (''type'', ''monitoring_server'')]) None
             (iso_now env) (reply env)))) \<and>
      ai_service (add_log fmt s level message ms env) =
        Some (snd (enhance_alert fmt svc level (metric_of_message message) val
           (Some [(''name'', ''localhost''), (''type'', ''monitoring_server'')]) None
           (iso_now env) (reply env)))"
    using assms by (simp add: add_log_last_alert add_log_ai_service)
  have tick: "last (ai_alerts_store (monitor_tick fmt s inp)) =
      make_ai_entry (tick_env inp)
        (fst (classify fmt (wall_clock inp) c mem d)) (snd (classify fmt (wall_clock inp) c mem d))
        (object_fields (fst (enhance_alert fmt svc (fst (classify fmt (wall_clock inp) c mem d))
           (metric_of_message (snd (classify fmt (wall_clock inp) c mem d))) c
           (Some [(''name'', ''localhost''), (''type'', ''monitoring_server'')]) None
           (iso_now (tick_env inp)) (reply (tick_env inp)))))"
    if acq: "acquired inp = Inr m" and snap: "read_snapshot m = Inr (c, mem, d)"
      and crossed: "c > 70 \<or> mem > 80 \<or> d > 80"
  proof -
    have step: "monitor_tick fmt s inp =
        add_log fmt (s\<lparr>prom_cpu := c, prom_mem := mem, prom_disk := d\<rparr>)
          (fst (classify fmt (wall_clock inp) c mem d)) (snd (classify fmt (wall_clock inp) c mem d))
          (Some m) (tick_env inp)"
      using acq snap by (simp add: monitor_tick_as_add_log)
    have level: "fst (classify fmt (wall_clock inp) c mem d) \<in> set [''warning'', ''error'', ''critical'']"
      using crossed by (rule classify_alert_level)
    have svc: "ai_service (s\<lparr>prom_cpu := c, prom_mem := mem, prom_disk := d\<rparr>) = Some svc"
      using assms by simp
    have val: "alert_value (Some m) = Some c"
      using read_snapshot_cpu [OF snap] by (simp add: alert_value_def)
    show ?thesis
      unfolding step by (rule add_log_last_alert [OF level svc val])
  qed
  have fallback: "entry_severity (last (ai_alerts_store (monitor_tick fmt s inp))) =
        JStr (if c > 60 then ''medium'' else ''low'') \<and>
      ai_explanation (last (ai_alerts_store (monitor_tick fmt s inp))) =
        JStr (metric_of_message (snd (classify fmt (wall_clock inp) c mem d)) @ '' is at '' @ fmt c @ ''%'')"
    if acq: "acquired inp = Inr m" and snap: "read_snapshot m = Inr (c, mem, d)"
      and low: "c \<le> 70" and crossed: "mem > 80 \<or> d > 80"
      and fb: "\<not> (client svc \<and> service_succeeds (reply (tick_env inp)))"
  proof -
    from crossed have "c > 70 \<or> mem > 80 \<or> d > 80" by simp
    from tick [OF acq snap this] fb low show ?thesis
      by (simp add: enhance_alert_result make_ai_entry_def object_fields_def default_response_def
          dict_get_def)
  qed
  have tick_imp:
    "acquired inp = Inr m \<and> read_snapshot m = Inr (c, mem, d) \<and> (c > 70 \<or> mem > 80 \<or> d > 80) \<longrightarrow>
       last (ai_alerts_store (monitor_tick fmt s inp)) =
         make_ai_entry (tick_env inp)
           (fst (classify fmt (wall_clock inp) c mem d)) (snd (classify fmt (wall_clock inp) c mem d))
           (object_fields (fst (enhance_alert fmt svc (fst (classify fmt (wall_clock inp) c mem d))
              (metric_of_message (snd (classify fmt (wall_clock inp) c mem d))) c
              (Some [(''name'', ''localhost''), (''type'', ''monitoring_server'')]) None
              (iso_now (tick_env inp)) (reply (tick_env inp)))))"
    using tick by blast
  have fallback_imp:
    "acquired inp = Inr m \<and> read_snapshot m = Inr (c, mem, d) \<and> c \<le> 70 \<and> (mem > 80 \<or> d > 80) \<and>
     \<not> (client svc \<and> service_succeeds (reply (tick_env inp))) \<longrightarrow>
       entry_severity (last (ai_alerts_store (monitor_tick fmt s inp))) =
         JStr (if c > 60 then ''medium'' else ''low'') \<and>
       ai_explanation (last (ai_alerts_store (monitor_tick fmt s inp))) =
         JStr (metric_of_message (snd (classify fmt (wall_clock inp) c mem d)) @ '' is at '' @ fmt c @ ''%'')"
    using fallback by blast
  show ?thesis
    by (intro conjI none some call tick_imp fallback_imp)
qed

theorem add_log_enriches_with_cpu_value_witness:
  "ai_service (initial_state (Some (new_AIService False))) = Some (new_AIService False) \<and>
   acquired (sample_tick ''12:00:00'' (Inr (sample_metrics 10 95 50))) = Inr (sample_metrics 10 95 50) \<and>
   read_snapshot (sample_metrics 10 95 50) = Inr (10, 95, 50) \<and>
   last (ai_alerts_store (monitor_tick fmt_whole (initial_state (Some (new_AIService False)))
     (sample_tick ''12:00:00'' (Inr (sample_metrics 10 95 50))))) =
     \<lparr>entry_timestamp = ''12:00:00'', entry_level = ''critical'',
      original_message = ''Memory Critical: 95%'',
      ai_explanation = JStr ''Memory Critical is at 10%'',
      likely_causes = JArr [JStr ''System load'', JStr ''Application demand'', JStr ''Background processes''],
      recommended_actions = JArr [JStr ''Check running processes'', JStr ''Monitor trends'', JStr ''Consider scaling''],
      entry_severity = JStr ''low''\<rparr> \<and>
   read_snapshot (sample_metrics 65 10 99) = Inr (65, 10, 99) \<and>
   entry_severity (last (ai_alerts_store (monitor_tick fmt_whole (initial_state (Some (new_AIService False)))
     (sample_tick ''12:00:02'' (Inr (sample_metrics 65 10 99)))))) = JStr ''medium'' \<and>
   ai_explanation (last (ai_alerts_store (monitor_tick fmt_whole (initial_state (Some (new_AIService False)))
     (sample_tick ''12:00:02'' (Inr (sample_metrics 65 10 99)))))) = JStr ''Disk Critical is at 65%'' \<and>
   ai_explanation (last (ai_alerts_store (add_log fmt_whole (initial_state (Some (new_AIService False)))
     ''error'' ''Monitor Error: sensor read failed'' None (sample_env Timeout)))) =
     JStr ''Monitor Error is at 0%''"
  using add_log_enriches_with_cpu_value
      [where s = "initial_state (Some (new_AIService False))" and svc = "new_AIService False"
        and fmt = fmt_whole and inp = "sample_tick ''12:00:00'' (Inr (sample_metrics 10 95 50))"
        and m = "sample_metrics 10 95 50" and c = 10 and mem = 95 and d = 50
        and level = "''error''" and message = "''Monitor Error: sensor read failed''" and ms = None
        and val = 0 and env = "sample_env Timeout"]
    add_log_enriches_with_cpu_value
      [where s = "initial_state (Some (new_AIService False))" and svc = "new_AIService False"
        and fmt = fmt_whole and inp = "sample_tick ''12:00:02'' (Inr (sample_metrics 65 10 99))"
        and m = "sample_metrics 65 10 99" and c = 65 and mem = 10 and d = 99
        and level = "''error''" and message = "''Monitor Error: sensor read failed''" and ms = None
        and val = 0 and env = "sample_env Timeout"]
  by (simp add: initial_state_def new_AIService_def sample_tick_def sample_metrics_def sample_env_def
      read_snapshot_def alert_value_def classify_def enhance_alert_def default_response_def
      make_ai_entry_def object_fields_def dict_get_def metric_of_message_def fmt_whole_def
      str_nat.simps)

section \<open>The bounded logs\<close>

lemma appended_sample:
  "appended_alert (fmt_fixed ''x'') (Some (new_AIService False)) (sample_call n) = Some (sample_alert n)"
  by (simp add: appended_alert_def sample_call_def sample_env_def sample_metrics_def alert_value_def
      enhance_alert_def default_response_def new_AIService_def make_ai_entry_def object_fields_def
      dict_get_def metric_of_message_def fmt_fixed_def sample_alert_def)

lemma map_filter_sample:
  "List.map_filter (appended_alert (fmt_fixed ''x'') (Some (new_AIService False))) (map sample_call ns) =
     map sample_alert ns"
  by (induction ns) (simp_all add: appended_sample)

text \<open>
  Claim C2: over any sequence of \<open>add_log\<close> calls the event log holds at most 100 lines and
  the alert log at most 20 entries; each holds the last entries appended to it, in the order
  in which they were appended. An append to a full log removes exactly its oldest entry.
  In particular, after more than 100 appends the event log is the last 100 lines appended,
  and after more than 20 alert appends the alert log is the last 20 entries appended.
\<close>

theorem bounded_logs_keep_last_entries:
  assumes "length (logs_store s) \<le> 100" and "length (ai_alerts_store s) \<le> 20"
  shows "logs_store (add_logs fmt s calls) = keep_last 100 (logs_store s @ map call_line calls) \<and>
     ai_alerts_store (add_logs fmt s calls) =
       keep_last 20 (ai_alerts_store s @ List.map_filter (appended_alert fmt (ai_service s)) calls) \<and>
     length (logs_store (add_logs fmt s calls)) \<le> 100 \<and>
     length (ai_alerts_store (add_logs fmt s calls)) \<le> 20 \<and>
     (length (logs_store s) = 100 \<longrightarrow>
        logs_store (add_log fmt s (call_level c) (call_message c) (call_metrics c) (call_environment c)) =
          tl (logs_store s) @ [call_line c]) \<and>
     (length (ai_alerts_store s) = 20 \<and> appended_alert fmt (ai_service s) c = Some e \<longrightarrow>
        ai_alerts_store (add_log fmt s (call_level c) (call_message c) (call_metrics c) (call_environment c)) =
          tl (ai_alerts_store s) @ [e]) \<and>
     (length calls > 100 \<longrightarrow>
        logs_store (add_logs fmt (initial_state service) calls) =
          drop (length calls - 100) (map call_line calls) \<and>
        length (logs_store (add_logs fmt (initial_state service) calls)) = 100) \<and>
     (length (List.map_filter (appended_alert fmt service) calls) > 20 \<longrightarrow>
        ai_alerts_store (add_logs fmt (initial_state service) calls) =
          drop (length (List.map_filter (appended_alert fmt service) calls) - 20)
            (List.map_filter (appended_alert fmt service) calls) \<and>
        length (ai_alerts_store (add_logs fmt (initial_state service) calls)) = 20)"
proof -
  have logs_keep: "logs_store s = keep_last 100 (logs_store s)"
    using assms(1) by (simp add: keep_last_short)
  have alerts_keep: "ai_alerts_store s = keep_last 20 (ai_alerts_store s)"
    using assms(2) by (simp add: keep_last_short)
  have logs: "logs_store (add_logs fmt s calls) = keep_last 100 (logs_store s @ map call_line calls)"
    using logs_keep by (rule add_logs_logs)
  have alerts: "ai_alerts_store (add_logs fmt s calls) =
      keep_last 20 (ai_alerts_store s @ List.map_filter (appended_alert fmt (ai_service s)) calls)"
    using alerts_keep by (rule add_logs_alerts) simp
  have logs_bound: "length (logs_store (add_logs fmt s calls)) \<le> 100"
    by (simp add: logs length_keep_last)
  have alerts_bound: "length (ai_alerts_store (add_logs fmt s calls)) \<le> 20"
    by (simp add: alerts length_keep_last)
  have logs_evict: "length (logs_store s) = 100 \<longrightarrow>
      logs_store (add_log fmt s (call_level c) (call_message c) (call_metrics c) (call_environment c)) =
        tl (logs_store s) @ [call_line c]"
    by (cases "logs_store s") (simp_all add: add_log_logs call_line_def Let_def)
  have alerts_evict: "length (ai_alerts_store s) = 20 \<and> appended_alert fmt (ai_service s) c = Some e \<longrightarrow>
      ai_alerts_store (add_log fmt s (call_level c) (call_message c) (call_metrics c) (call_environment c)) =
        tl (ai_alerts_store s) @ [e]"
    by (cases "ai_alerts_store s") (simp_all add: add_log_alerts Let_def)
  have init_logs: "logs_store (add_logs fmt (initial_state service) calls) = keep_last 100 (map call_line calls)"
    using add_logs_logs [of "initial_state service" "[]" fmt calls]
    by (simp add: initial_state_def keep_last_def)
  have init_alerts: "ai_alerts_store (add_logs fmt (initial_state service) calls) =
      keep_last 20 (List.map_filter (appended_alert fmt service) calls)"
    using add_logs_alerts [of "initial_state service" "[]" service fmt calls]
    by (simp add: initial_state_def keep_last_def)
  have many_logs: "length calls > 100 \<longrightarrow>
      logs_store (add_logs fmt (initial_state service) calls) =
        drop (length calls - 100) (map call_line calls) \<and>
      length (logs_store (add_logs fmt (initial_state service) calls)) = 100"
    by (simp add: init_logs keep_last_def)
  have many_alerts: "length (List.map_filter (appended_alert fmt service) calls) > 20 \<longrightarrow>
      ai_alerts_store (add_logs fmt (initial_state service) calls) =
        drop (length (List.map_filter (appended_alert fmt service) calls) - 20)
          (List.map_filter (appended_alert fmt service) calls) \<and>
      length (ai_alerts_store (add_logs fmt (initial_state service) calls)) = 20"
    by (simp add: init_alerts keep_last_def)
  from logs alerts logs_bound alerts_bound logs_evict alerts_evict many_logs many_alerts
  show ?thesis by (simp only: simp_thms)
qed

theorem bounded_logs_keep_last_entries_witness:
  "length (logs_store (initial_state (Some (new_AIService False)))) \<le> 100 \<and>
   length (ai_alerts_store (initial_state (Some (new_AIService False)))) \<le> 20 \<and>
   length (map sample_call [0..<101]) > 100 \<and>
   logs_store (add_logs (fmt_fixed ''x'') (initial_state (Some (new_AIService False)))
     (map sample_call [0..<101])) = map call_line (map sample_call [1..<101]) \<and>
   ai_alerts_store (add_logs (fmt_fixed ''x'') (initial_state (Some (new_AIService False)))
     (map sample_call [0..<101])) = map sample_alert [81..<101] \<and>
   call_line (sample_call 100) = ''12:00:00 | WARNING | High CPU Load: 100%''"
  using bounded_logs_keep_last_entries
      [of "initial_state (Some (new_AIService False))" "fmt_fixed ''x''" "map sample_call [0..<101]"
        "sample_call 0" "sample_alert 0" "Some (new_AIService False)"]
    map_filter_sample [of "[0..<101]"]
  by (simp add: initial_state_def keep_last_def drop_map call_line_def log_entry_def sample_call_def
      sample_env_def upper_def upper_char_def str_nat.simps del: upt_rec_numeral)

section \<open>The sampling loop\<close>

text \<open>
  Claim C8: when \<^verbatim>\<open>get_system_metrics()\<close> raises, or reading the snapshot raises, the
  exception is caught in the same tick and becomes one error-level log line that carries
  its message; the loop then runs the ticks that follow from the state the handler left.
  Every tick, failing or not, logs exactly one event, so over any run the error counter
  grows by the number of failing ticks.
\<close>

theorem monitor_tick_failure_logged:
  "((acquired inp = Inl e \<or> (\<exists>m. acquired inp = Inr m \<and> read_snapshot m = Inl e)) \<longrightarrow>
      monitor_try fmt s inp = Inl e \<and>
      monitor_tick fmt s inp =
        add_log fmt s ''error'' (''Monitor Error: '' @ str_exception e) None (tick_env inp) \<and>
      last (logs_store (monitor_tick fmt s inp)) =
        clock (tick_env inp) @ '' | ERROR | Monitor Error: '' @ str_exception e \<and>
      prom_logs (monitor_tick fmt s inp) ''error'' = prom_logs s ''error'' + 1 \<and>
      tick_event fmt inp = (''error'', ''Monitor Error: '' @ str_exception e)) \<and>
   background_monitor fmt s (pre @ inp # post) =
     background_monitor fmt (monitor_tick fmt (background_monitor fmt s pre) inp) post \<and>
   prom_logs (background_monitor fmt s inps) level =
     prom_logs s level + length (filter (\<lambda>i. fst (tick_event fmt i) = level) inps) \<and>
   last (logs_store (monitor_tick fmt s inp)) =
     log_entry (tick_env inp) (fst (tick_event fmt inp)) (snd (tick_event fmt inp))"
proof -
  have failing: "(acquired inp = Inl e \<or> (\<exists>m. acquired inp = Inr m \<and> read_snapshot m = Inl e)) \<longrightarrow>
      monitor_try fmt s inp = Inl e \<and>
      monitor_tick fmt s inp =
        add_log fmt s ''error'' (''Monitor Error: '' @ str_exception e) None (tick_env inp) \<and>
      last (logs_store (monitor_tick fmt s inp)) =
        clock (tick_env inp) @ '' | ERROR | Monitor Error: '' @ str_exception e \<and>
      prom_logs (monitor_tick fmt s inp) ''error'' = prom_logs s ''error'' + 1 \<and>
      tick_event fmt inp = (''error'', ''Monitor Error: '' @ str_exception e)"
  proof (rule impI)
    assume raised: "acquired inp = Inl e \<or> (\<exists>m. acquired inp = Inr m \<and> read_snapshot m = Inl e)"
    then have body: "monitor_try fmt s inp = Inl e"
      by (auto simp add: monitor_try_def)
    then have tick: "monitor_tick fmt s inp =
        add_log fmt s ''error'' (''Monitor Error: '' @ str_exception e) None (tick_env inp)"
      by (simp add: monitor_tick_def)
    from raised have event: "tick_event fmt inp = (''error'', ''Monitor Error: '' @ str_exception e)"
      by (auto simp add: tick_event_def)
    have line: "last (logs_store (monitor_tick fmt s inp)) =
        clock (tick_env inp) @ '' | ERROR | Monitor Error: '' @ str_exception e"
      by (simp add: tick add_log_last log_entry_def upper_def upper_char_def)
    have count: "prom_logs (monitor_tick fmt s inp) ''error'' = prom_logs s ''error'' + 1"
      by (simp add: tick add_log_prom_logs)
    from body tick line count event
    show "monitor_try fmt s inp = Inl e \<and>
      monitor_tick fmt s inp =
        add_log fmt s ''error'' (''Monitor Error: '' @ str_exception e) None (tick_env inp) \<and>
      last (logs_store (monitor_tick fmt s inp)) =
        clock (tick_env inp) @ '' | ERROR | Monitor Error: '' @ str_exception e \<and>
      prom_logs (monitor_tick fmt s inp) ''error'' = prom_logs s ''error'' + 1 \<and>
      tick_event fmt inp = (''error'', ''Monitor Error: '' @ str_exception e)"
      by (simp only: simp_thms)
  qed
  have continues: "background_monitor fmt s (pre @ inp # post) =
      background_monitor fmt (monitor_tick fmt (background_monitor fmt s pre) inp) post"
    by (simp add: background_monitor_append)
  show ?thesis
    by (intro conjI failing continues background_monitor_prom_logs monitor_tick_last)
qed

theorem monitor_tick_failure_logged_witness:
  "acquired (sample_tick ''12:00:02'' (Inl (OtherError ''sensor read failed''))) =
     Inl (OtherError ''sensor read failed'') \<and>
   acquired (sample_tick ''12:00:04''
       (Inr \<lparr>metrics_cpu = Some 50, metrics_memory = None, metrics_disk = Some (Some 50)\<rparr>)) =
     Inr \<lparr>metrics_cpu = Some 50, metrics_memory = None, metrics_disk = Some (Some 50)\<rparr> \<and>
   read_snapshot \<lparr>metrics_cpu = Some 50, metrics_memory = None, metrics_disk = Some (Some 50)\<rparr> =
     Inl (KeyError ''memory'') \<and>
   logs_store (background_monitor fmt_whole (initial_state (Some (new_AIService False)))
     [sample_tick ''12:00:00'' (Inr (sample_metrics 95 40 40)),
      sample_tick ''12:00:02'' (Inl (OtherError ''sensor read failed'')),
      sample_tick ''12:00:04''
        (Inr \<lparr>metrics_cpu = Some 50, metrics_memory = None, metrics_disk = Some (Some 50)\<rparr>),
      sample_tick ''12:00:06'' (Inr (sample_metrics 10 20 30))]) =
     [''12:00:00 | CRITICAL | CPU Critical: 95%'',
      ''12:00:02 | ERROR | Monitor Error: sensor read failed'',
      ''12:00:04 | ERROR | Monitor Error: '' @ [CHR 0x27] @ ''memory'' @ [CHR 0x27],
      ''12:00:06 | INFO | System Stable: CPU 10%, RAM 20%''] \<and>
   prom_logs (background_monitor fmt_whole (initial_state (Some (new_AIService False)))
     [sample_tick ''12:00:00'' (Inr (sample_metrics 95 40 40)),
      sample_tick ''12:00:02'' (Inl (OtherError ''sensor read failed'')),
      sample_tick ''12:00:04''
        (Inr \<lparr>metrics_cpu = Some 50, metrics_memory = None, metrics_disk = Some (Some 50)\<rparr>),
      sample_tick ''12:00:06'' (Inr (sample_metrics 10 20 30))]) ''error'' = 2"
  using monitor_tick_failure_logged
      [of "sample_tick ''12:00:02'' (Inl (OtherError ''sensor read failed''))"
        "OtherError ''sensor read failed''" fmt_whole
        "initial_state (Some (new_AIService False))"
        "[sample_tick ''12:00:00'' (Inr (sample_metrics 95 40 40))]"
        "[sample_tick ''12:00:04''
            (Inr \<lparr>metrics_cpu = Some 50, metrics_memory = None, metrics_disk = Some (Some 50)\<rparr>),
          sample_tick ''12:00:06'' (Inr (sample_metrics 10 20 30))]"
        "[sample_tick ''12:00:00'' (Inr (sample_metrics 95 40 40)),
          sample_tick ''12:00:02'' (Inl (OtherError ''sensor read failed'')),
          sample_tick ''12:00:04''
            (Inr \<lparr>metrics_cpu = Some 50, metrics_memory = None, metrics_disk = Some (Some 50)\<rparr>),
          sample_tick ''12:00:06'' (Inr (sample_metrics 10 20 30))]"
        "''error''"]
  by (simp add: sample_tick_def sample_metrics_def read_snapshot_def monitor_tick_as_add_log
      add_log_logs log_entry_def upper_def upper_char_def classify_def fmt_whole_def str_nat.simps
      initial_state_def tick_event_def Let_def)

section \<open>Recommendations\<close>

text \<open>
  Claim C7: \<open>generate_recommendations\<close> checks \<open>cpu > 70\<close>, \<open>memory > 80\<close> and \<open>disk > 85\<close>
  each on its own, in the order CPU, memory, disk, and emits one recommendation for each
  threshold that is crossed: the disk one with priority "critical", the CPU and memory ones
  with priority "high". There are never more than 3, and the summary states their number.
  The snapshot cpu 75, memory 50, disk 50 gives exactly one recommendation, of type "cpu"
  and priority "high"; the snapshot 10, 10, 10 gives none and the summary "Found 0
  optimization opportunities".
\<close>

theorem generate_recommendations_thresholds:
  "map rec_type (res_recommendations (generate_recommendations fmt now m)) =
     (if get_cpu m > 70 then [''cpu''] else []) @
     (if get_percent (metrics_memory m) > 80 then [''memory''] else []) @
     (if get_percent (metrics_disk m) > 85 then [''disk''] else []) \<and>
   list_all (\<lambda>r. rec_priority r = (if rec_type r = ''disk'' then ''critical'' else ''high''))
     (res_recommendations (generate_recommendations fmt now m)) \<and>
   length (res_recommendations (generate_recommendations fmt now m)) \<le> 3 \<and>
   res_summary (generate_recommendations fmt now m) =
     ''Found '' @ str_nat (length (res_recommendations (generate_recommendations fmt now m))) @
     '' optimization opportunities'' \<and>
   get_cpu \<lparr>metrics_cpu = Some c, metrics_memory = Some (Some mem), metrics_disk = Some (Some d)\<rparr> = c \<and>
   get_percent (Some (Some mem)) = mem \<and>
   generate_recommendations fmt now
       \<lparr>metrics_cpu = Some 75, metrics_memory = Some (Some 50), metrics_disk = Some (Some 50)\<rparr> =
     \<lparr>res_timestamp = now,
      res_recommendations =
        [\<lparr>rec_type = ''cpu'', rec_priority = ''high'', rec_action = ''Optimize CPU usage'',
          rec_details = ''Current CPU is '' @ fmt 75 @
            ''%. Consider: 1. Identify CPU-intensive processes 2. Optimize application code 3. Add CPU limits''\<rparr>],
      res_summary = ''Found 1 optimization opportunities''\<rparr> \<and>
   generate_recommendations fmt now
       \<lparr>metrics_cpu = Some 10, metrics_memory = Some (Some 10), metrics_disk = Some (Some 10)\<rparr> =
     \<lparr>res_timestamp = now, res_recommendations = [],
      res_summary = ''Found 0 optimization opportunities''\<rparr>"
proof -
  have types: "map rec_type (res_recommendations (generate_recommendations fmt now m)) =
      (if get_cpu m > 70 then [''cpu''] else []) @
      (if get_percent (metrics_memory m) > 80 then [''memory''] else []) @
      (if get_percent (metrics_disk m) > 85 then [''disk''] else [])"
    by (simp add: generate_recommendations_def Let_def)
  have priorities:
    "list_all (\<lambda>r. rec_priority r = (if rec_type r = ''disk'' then ''critical'' else ''high''))
       (res_recommendations (generate_recommendations fmt now m))"
    by (simp add: generate_recommendations_def Let_def)
  have bound: "length (res_recommendations (generate_recommendations fmt now m)) \<le> 3"
    by (simp add: generate_recommendations_def Let_def)
  have summary: "res_summary (generate_recommendations fmt now m) =
      ''Found '' @ str_nat (length (res_recommendations (generate_recommendations fmt now m))) @
      '' optimization opportunities''"
    by (simp add: generate_recommendations_def Let_def)
  have getters:
    "get_cpu \<lparr>metrics_cpu = Some c, metrics_memory = Some (Some mem), metrics_disk = Some (Some d)\<rparr> = c"
    "get_percent (Some (Some mem)) = mem"
    by (simp_all add: get_cpu_def get_percent_def)
  have one: "generate_recommendations fmt now
        \<lparr>metrics_cpu = Some 75, metrics_memory = Some (Some 50), metrics_disk = Some (Some 50)\<rparr> =
      \<lparr>res_timestamp = now,
       res_recommendations =
         [\<lparr>rec_type = ''cpu'', rec_priority = ''high'', rec_action = ''Optimize CPU usage'',
           rec_details = ''Current CPU is '' @ fmt 75 @
             ''%. Consider: 1. Identify CPU-intensive processes 2. Optimize application code 3. Add CPU limits''\<rparr>],
       res_summary = ''Found 1 optimization opportunities''\<rparr>"
    by (simp add: generate_recommendations_def Let_def get_cpu_def get_percent_def str_nat.simps)
  have none: "generate_recommendations fmt now
        \<lparr>metrics_cpu = Some 10, metrics_memory = Some (Some 10), metrics_disk = Some (Some 10)\<rparr> =
      \<lparr>res_timestamp = now, res_recommendations = [],
       res_summary = ''Found 0 optimization opportunities''\<rparr>"
    by (simp add: generate_recommendations_def Let_def get_cpu_def get_percent_def str_nat.simps)
  from types priorities bound summary getters one none show ?thesis
    by (simp only: simp_thms)
qed

theorem generate_recommendations_thresholds_witness:
  "map rec_type (res_recommendations (generate_recommendations (fmt_fixed ''x'') ''now''
     \<lparr>metrics_cpu = Some 95, metrics_memory = Some (Some 81), metrics_disk = Some (Some 86)\<rparr>)) =
     [''cpu'', ''memory'', ''disk''] \<and>
   map rec_priority (res_recommendations (generate_recommendations (fmt_fixed ''x'') ''now''
     \<lparr>metrics_cpu = Some 95, metrics_memory = Some (Some 81), metrics_disk = Some (Some 86)\<rparr>)) =
     [''high'', ''high'', ''critical''] \<and>
   res_summary (generate_recommendations (fmt_fixed ''x'') ''now''
     \<lparr>metrics_cpu = Some 95, metrics_memory = Some (Some 81), metrics_disk = Some (Some 86)\<rparr>) =
     ''Found 3 optimization opportunities'' \<and>
   map rec_type (res_recommendations (generate_recommendations (fmt_fixed ''x'') ''now''
     \<lparr>metrics_cpu = Some 70, metrics_memory = Some (Some 80), metrics_disk = Some (Some 86)\<rparr>)) =
     [''disk''] \<and>
   res_recommendations (generate_recommendations (fmt_fixed ''x'') ''now''
     \<lparr>metrics_cpu = None, metrics_memory = Some None, metrics_disk = None\<rparr>) = []"
  using generate_recommendations_thresholds
      [of "fmt_fixed ''x''" "''now''"
        "\<lparr>metrics_cpu = Some 95, metrics_memory = Some (Some 81), metrics_disk = Some (Some 86)\<rparr>"]
    generate_recommendations_thresholds
      [of "fmt_fixed ''x''" "''now''"
        "\<lparr>metrics_cpu = Some 70, metrics_memory = Some (Some 80), metrics_disk = Some (Some 86)\<rparr>"]
    generate_recommendations_thresholds
      [of "fmt_fixed ''x''" "''now''"
        "\<lparr>metrics_cpu = None, metrics_memory = Some None, metrics_disk = None\<rparr>"]
  by (simp add: generate_recommendations_def Let_def get_cpu_def get_percent_def str_nat.simps)

end
